theory Spec2Isabelle
  imports Main
begin

section \<open>Go strings\<close>

text \<open>
  A Go \<^verbatim>\<open>string\<close> is a sequence of bytes; it is modelled as a \<^typ>\<open>string\<close>
  (a list of 8-bit characters). The functions of package \<^verbatim>\<open>strings\<close> that
  \<^verbatim>\<open>url.go\<close> and \<^verbatim>\<open>main.go\<close> call are written out here, with Go's
  argument order.
\<close>

text \<open>\<^verbatim>\<open>strings.HasPrefix(s, prefix)\<close>:
  \<^verbatim>\<open>len(s) >= len(prefix) && s[:len(prefix)] == prefix\<close>.\<close>

definition hasPrefix :: "string \<Rightarrow> string \<Rightarrow> bool" where
  "hasPrefix s pre = (length pre \<le> length s \<and> take (length pre) s = pre)"

text \<open>\<^verbatim>\<open>strings.HasSuffix(s, suffix)\<close>:
  \<^verbatim>\<open>len(s) >= len(suffix) && s[len(s)-len(suffix):] == suffix\<close>.\<close>

definition hasSuffix :: "string \<Rightarrow> string \<Rightarrow> bool" where
  "hasSuffix s suf = (length suf \<le> length s \<and> drop (length s - length suf) s = suf)"



text \<open>\<^verbatim>\<open>strings.Contains(s, substr)\<close>: \<^verbatim>\<open>substr\<close> occurs at some offset of
  \<^verbatim>\<open>s\<close>.\<close>

fun contains :: "string \<Rightarrow> string \<Rightarrow> bool" where
  "contains [] substr = (substr = [])"
| "contains (c # s) substr = (hasPrefix (c # s) substr \<or> contains s substr)"


text \<open>\<^verbatim>\<open>strings.Join(elems, sep)\<close>.\<close>

fun join :: "string list \<Rightarrow> string \<Rightarrow> string" where
  "join [] sep = []"
| "join [x] sep = x"
| "join (x # y # ys) sep = x @ sep @ join (y # ys) sep"

text \<open>\<^verbatim>\<open>strings.SplitN(s, sep, 2)\<close> for a one-byte separator: the string is cut at
  the first separator only, and is returned whole when it has none.\<close>

definition splitN2 :: "string \<Rightarrow> char \<Rightarrow> string list" where
  "splitN2 s sep =
     (case dropWhile (\<lambda>c. c \<noteq> sep) s of
        [] \<Rightarrow> [s]
      | _ # rest \<Rightarrow> [takeWhile (\<lambda>c. c \<noteq> sep) s, rest])"

text \<open>\<^verbatim>\<open>strings.Split(s, sep)\<close> for a one-byte separator: the string is cut at
  every separator; a string with \<open>n\<close> separators gives \<open>n + 1\<close> parts.\<close>

fun split :: "string \<Rightarrow> char \<Rightarrow> string list" where
  "split [] sep = [[]]"
| "split (c # s) sep =
     (if c = sep then [] # split s sep
      else (case split s sep of [] \<Rightarrow> [[c]] | p # ps \<Rightarrow> (c # p) # ps))"

section \<open>Runtime panics\<close>

text \<open>
  The two ways the modelled code could panic: calling a \<^verbatim>\<open>nil\<close> function value
  (the \<^verbatim>\<open>match\<close> field of a descriptor that does not set it) and indexing a
  slice out of range (\<^verbatim>\<open>parts[0]\<close>). A function that can reach one returns
  a sum with the panic on the left.
\<close>

datatype panic = NilFuncCall | IndexOutOfRange

section \<open>url.go: path join and line anchors\<close>

text \<open>\<^verbatim>\<open>pathJoin\<close> builds a slash-joined URL, skipping empty segments.\<close>

definition pathJoin :: "string list \<Rightarrow> string" where
  "pathJoin parts = join (filter (\<lambda>p. p \<noteq> []) parts) ''/''"

definition anchorLN :: "string \<Rightarrow> string \<Rightarrow> string" where
  "anchorLN start end' =
     (if start = [] then []
      else if end' = [] then ''#L'' @ start
      else ''#L'' @ start @ ''-L'' @ end')"

definition anchorGL :: "string \<Rightarrow> string \<Rightarrow> string" where
  "anchorGL start end' =
     (if start = [] then []
      else if end' = [] then ''#L'' @ start
      else ''#L'' @ start @ ''-'' @ end')"

definition anchorBB :: "string \<Rightarrow> string \<Rightarrow> string" where
  "anchorBB start end' =
     (if start = [] then []
      else if end' = [] then ''#lines-'' @ start
      else ''#lines-'' @ start @ '':'' @ end')"

text \<open>In \<^verbatim>\<open>anchorADO\<close> an empty \<^verbatim>\<open>end\<close> is overwritten with \<^verbatim>\<open>start\<close>
  before the \<^verbatim>\<open>Sprintf\<close>.\<close>

definition anchorADO :: "string \<Rightarrow> string \<Rightarrow> string" where
  "anchorADO start end' =
     (if start = [] then []
      else (let e = (if end' = [] then start else end')
            in ''&line='' @ start @ ''&lineEnd='' @ e @ ''&lineStartColumn=1&lineEndColumn=1''))"

section \<open>url.go: the provider table\<close>

text \<open>
  A \<^verbatim>\<open>provider\<close> is a struct of four function values. Every descriptor literal
  of the source sets \<^verbatim>\<open>treeURL\<close>, \<^verbatim>\<open>commitURL\<close> and \<^verbatim>\<open>lineAnchor\<close>;
  \<^verbatim>\<open>defaultProvider\<close> leaves \<^verbatim>\<open>match\<close> unset, which in Go is \<^verbatim>\<open>nil\<close>, so
  that field is an option.
\<close>

record provider =
  match :: "(string \<Rightarrow> bool) option"
  treeURL :: "string \<Rightarrow> string \<Rightarrow> string \<Rightarrow> string"
  commitURL :: "string \<Rightarrow> string \<Rightarrow> string \<Rightarrow> string"
  lineAnchor :: "string \<Rightarrow> string \<Rightarrow> string"

text \<open>The seven elements of \<^verbatim>\<open>providers\<close>, in the order of the source. The
  source does not name them; the names here are those of the platforms.\<close>

definition githubProvider :: provider where
  "githubProvider = \<lparr>
     match = Some (\<lambda>u. contains u ''github.com''),
     treeURL = (\<lambda>base ref path. pathJoin [base, ''tree'', ref, path]),
     commitURL = (\<lambda>base hash path.
        if path = [] then pathJoin [base, ''commit'', hash]
        else pathJoin [base, ''blob'', hash, path]),
     lineAnchor = anchorLN \<rparr>"

definition gitlabProvider :: provider where
  "gitlabProvider = \<lparr>
     match = Some (\<lambda>u. contains u ''gitlab.com'' \<or> contains u ''gitlab''),
     treeURL = (\<lambda>base ref path. pathJoin [base, ''-/tree'', ref, path]),
     commitURL = (\<lambda>base hash path.
        if path = [] then pathJoin [base, ''-/commit'', hash]
        else pathJoin [base, ''-/blob'', hash, path]),
     lineAnchor = anchorGL \<rparr>"

definition bitbucketProvider :: provider where
  "bitbucketProvider = \<lparr>
     match = Some (\<lambda>u. contains u ''bitbucket.org''),
     treeURL = (\<lambda>base ref path. pathJoin [base, ''src'', ref, path]),
     commitURL = (\<lambda>base hash path.
        if path = [] then pathJoin [base, ''commits'', hash]
        else pathJoin [base, ''src'', hash, path]),
     lineAnchor = anchorBB \<rparr>"

definition azureProvider :: provider where
  "azureProvider = \<lparr>
     match = Some (\<lambda>u. contains u ''dev.azure.com'' \<or> contains u ''visualstudio.com''),
     treeURL = (\<lambda>base ref path.
        if path = [] then base @ ''?version=GB'' @ ref
        else base @ ''?version=GB'' @ ref @ ''&path=/'' @ path),
     commitURL = (\<lambda>base hash path.
        if path = [] then pathJoin [base, ''commit'', hash]
        else base @ ''?version=GC'' @ hash @ ''&path=/'' @ path),
     lineAnchor = anchorADO \<rparr>"

definition giteaProvider :: provider where
  "giteaProvider = \<lparr>
     match = Some (\<lambda>u. contains u ''gitea''),
     treeURL = (\<lambda>base ref path. pathJoin [base, ''src/branch'', ref, path]),
     commitURL = (\<lambda>base hash path.
        if path = [] then pathJoin [base, ''commit'', hash]
        else pathJoin [base, ''src/commit'', hash, path]),
     lineAnchor = anchorLN \<rparr>"

definition gogsProvider :: provider where
  "gogsProvider = \<lparr>
     match = Some (\<lambda>u. contains u ''gogs''),
     treeURL = (\<lambda>base ref path. pathJoin [base, ''src'', ref, path]),
     commitURL = (\<lambda>base hash path.
        if path = [] then pathJoin [base, ''commit'', hash]
        else pathJoin [base, ''src'', hash, path]),
     lineAnchor = anchorLN \<rparr>"

definition codecommitProvider :: provider where
  "codecommitProvider = \<lparr>
     match = Some (\<lambda>u. contains u ''console.aws.amazon.com'' \<or> contains u ''codecommit''),
     treeURL = (\<lambda>base ref path.
        if path = [] then pathJoin [base, ''browse/refs/heads'', ref, ''--''] @ ''/''
        else pathJoin [base, ''browse/refs/heads'', ref, ''--'', path]),
     commitURL = (\<lambda>base hash path.
        if path = [] then pathJoin [base, ''commit'', hash]
        else pathJoin [base, ''browse'', hash, ''--'', path]),
     lineAnchor = (\<lambda>_ _. []) \<rparr>"

definition providers :: "provider list" where
  "providers = [githubProvider, gitlabProvider, bitbucketProvider, azureProvider,
                giteaProvider, gogsProvider, codecommitProvider]"

text \<open>\<^verbatim>\<open>defaultProvider\<close> uses GitHub-style URLs as a fallback.\<close>

definition defaultProvider :: provider where
  "defaultProvider = \<lparr>
     match = None,
     treeURL = (\<lambda>base ref path. pathJoin [base, ''tree'', ref, path]),
     commitURL = (\<lambda>base hash path.
        if path = [] then pathJoin [base, ''commit'', hash]
        else pathJoin [base, ''blob'', hash, path]),
     lineAnchor = anchorLN \<rparr>"

text \<open>The \<^verbatim>\<open>range\<close> loop of \<^verbatim>\<open>detectProvider\<close> over a descriptor list:
  \<^verbatim>\<open>p.match(baseURL)\<close> on a descriptor without matcher is a call of \<^verbatim>\<open>nil\<close>.\<close>

fun detectProvider_loop :: "provider list \<Rightarrow> string \<Rightarrow> panic + provider" where
  "detectProvider_loop [] baseURL = Inr defaultProvider"
| "detectProvider_loop (p # ps) baseURL =
     (case match p of
        None \<Rightarrow> Inl NilFuncCall
      | Some m \<Rightarrow> if m baseURL then Inr p else detectProvider_loop ps baseURL)"

definition detectProvider :: "string \<Rightarrow> panic + provider" where
  "detectProvider baseURL = detectProvider_loop providers baseURL"

section \<open>url.go: buildWebURL\<close>

text \<open>\<^verbatim>\<open>repoContext\<close> (declared beside \<^verbatim>\<open>getRepoContext\<close>) holds all git
  information needed to build a web URL; an empty \<^verbatim>\<open>relPath\<close> is the repository
  root.\<close>

record repoContext =
  baseURL :: string
  branch :: string
  relPath :: string

text \<open>The first block of \<^verbatim>\<open>buildWebURL\<close>: the pair
  \<^verbatim>\<open>(startLine, endLine)\<close> read from \<^verbatim>\<open>lineNumber\<close>.\<close>

definition lineRange :: "string \<Rightarrow> panic + (string \<times> string)" where
  "lineRange lineNumber =
     (if lineNumber \<noteq> [] then
        (let parts = splitN2 lineNumber CHR ''-'' in
         case parts of
           [] \<Rightarrow> Inl IndexOutOfRange
         | p0 # _ \<Rightarrow> Inr (p0, if length parts > 1 then parts ! 1 else []))
      else Inr ([], []))"

definition buildWebURL :: "repoContext \<Rightarrow> string \<Rightarrow> string \<Rightarrow> panic + string" where
  "buildWebURL ctx lineNumber commitHash =
     (case lineRange lineNumber of
        Inl e \<Rightarrow> Inl e
      | Inr (startLine, endLine) \<Rightarrow>
          (case detectProvider (baseURL ctx) of
             Inl e \<Rightarrow> Inl e
           | Inr p \<Rightarrow>
               (let url = (if commitHash \<noteq> []
                           then commitURL p (baseURL ctx) commitHash (relPath ctx)
                           else treeURL p (baseURL ctx) (branch ctx) (relPath ctx))
                in Inr (url @ lineAnchor p startLine endLine))))"

section \<open>url.go: convertToHTTPS\<close>



section \<open>main.go: the earlier buildWebURL\<close>

text \<open>
  The five-argument \<^verbatim>\<open>buildWebURL\<close> of \<^verbatim>\<open>main.go\<close>, one \<^verbatim>\<open>switch\<close> over
  the platforms with every URL written by \<^verbatim>\<open>fmt.Sprintf\<close> (a \<^verbatim>\<open>%s\<close> verb
  inserts the string as it is). Its line number is cut by \<^verbatim>\<open>strings.Split\<close>, at
  every dash. The result is the pair \<^verbatim>\<open>(url, lineFragment)\<close> concatenated.
\<close>

definition legacyLineRange :: "string \<Rightarrow> panic + (string \<times> string)" where
  "legacyLineRange lineNumber =
     (if lineNumber \<noteq> [] then
        (let parts = split lineNumber CHR ''-'' in
         case parts of
           [] \<Rightarrow> Inl IndexOutOfRange
         | p0 # _ \<Rightarrow> Inr (p0, if length parts > 1 then parts ! 1 else []))
      else Inr ([], []))"

definition legacySwitch ::
  "string \<Rightarrow> string \<Rightarrow> string \<Rightarrow> string \<Rightarrow> string \<Rightarrow> string \<Rightarrow> string" where
  "legacySwitch base ref path startLine endLine commitHash =
     (if contains base ''github.com'' then
           (if commitHash \<noteq> [] then
              (if path = [] then base @ ''/commit/'' @ commitHash
               else base @ ''/blob/'' @ commitHash @ ''/'' @ path)
            else if path = [] then base @ ''/tree/'' @ ref
            else base @ ''/tree/'' @ ref @ ''/'' @ path)
           @ (if startLine \<noteq> [] then
                (if endLine \<noteq> [] then ''#L'' @ startLine @ ''-L'' @ endLine
                 else ''#L'' @ startLine)
              else [])
      else if contains base ''gitlab.com'' \<or> contains base ''gitlab'' then
           (if commitHash \<noteq> [] then
              (if path = [] then base @ ''/-/commit/'' @ commitHash
               else base @ ''/-/blob/'' @ commitHash @ ''/'' @ path)
            else if path = [] then base @ ''/-/tree/'' @ ref
            else base @ ''/-/tree/'' @ ref @ ''/'' @ path)
           @ (if startLine \<noteq> [] then
                (if endLine \<noteq> [] then ''#L'' @ startLine @ ''-'' @ endLine
                 else ''#L'' @ startLine)
              else [])
      else if contains base ''bitbucket.org'' then
           (if commitHash \<noteq> [] then
              (if path = [] then base @ ''/commits/'' @ commitHash
               else base @ ''/src/'' @ commitHash @ ''/'' @ path)
            else if path = [] then base @ ''/src/'' @ ref
            else base @ ''/src/'' @ ref @ ''/'' @ path)
           @ (if startLine \<noteq> [] then
                (if endLine \<noteq> [] then ''#lines-'' @ startLine @ '':'' @ endLine
                 else ''#lines-'' @ startLine)
              else [])
      else if contains base ''dev.azure.com'' \<or> contains base ''visualstudio.com'' then
           (if commitHash \<noteq> [] then
              (if path = [] then base @ ''/commit/'' @ commitHash
               else base @ ''?version=GC'' @ commitHash @ ''&path=/'' @ path)
            else if path = [] then base @ ''?version=GB'' @ ref
            else base @ ''?version=GB'' @ ref @ ''&path=/'' @ path)
           @ (if startLine \<noteq> [] then
                (if endLine \<noteq> []
                 then ''&line='' @ startLine @ ''&lineEnd='' @ endLine
                        @ ''&lineStartColumn=1&lineEndColumn=1''
                 else ''&line='' @ startLine @ ''&lineEnd='' @ startLine
                        @ ''&lineStartColumn=1&lineEndColumn=1'')
              else [])
      else if contains base ''gitea'' then
           (if commitHash \<noteq> [] then
              (if path = [] then base @ ''/commit/'' @ commitHash
               else base @ ''/src/commit/'' @ commitHash @ ''/'' @ path)
            else if path = [] then base @ ''/src/branch/'' @ ref
            else base @ ''/src/branch/'' @ ref @ ''/'' @ path)
           @ (if startLine \<noteq> [] then
                (if endLine \<noteq> [] then ''#L'' @ startLine @ ''-L'' @ endLine
                 else ''#L'' @ startLine)
              else [])
      else if contains base ''gogs'' then
           (if commitHash \<noteq> [] then
              (if path = [] then base @ ''/commit/'' @ commitHash
               else base @ ''/src/'' @ commitHash @ ''/'' @ path)
            else if path = [] then base @ ''/src/'' @ ref
            else base @ ''/src/'' @ ref @ ''/'' @ path)
           @ (if startLine \<noteq> [] then
                (if endLine \<noteq> [] then ''#L'' @ startLine @ ''-L'' @ endLine
                 else ''#L'' @ startLine)
              else [])
      else if contains base ''console.aws.amazon.com'' \<or> contains base ''codecommit'' then
           (if commitHash \<noteq> [] then
              (if path = [] then base @ ''/commit/'' @ commitHash
               else base @ ''/browse/'' @ commitHash @ ''/--/'' @ path)
            else if path = [] then base @ ''/browse/refs/heads/'' @ ref @ ''/--/''
            else base @ ''/browse/refs/heads/'' @ ref @ ''/--/'' @ path)
           @ []
      else
           (if commitHash \<noteq> [] then
              (if path = [] then base @ ''/commit/'' @ commitHash
               else base @ ''/blob/'' @ commitHash @ ''/'' @ path)
            else if path = [] then base @ ''/tree/'' @ ref
            else base @ ''/tree/'' @ ref @ ''/'' @ path)
           @ (if startLine \<noteq> [] then
                (if endLine \<noteq> [] then ''#L'' @ startLine @ ''-L'' @ endLine
                 else ''#L'' @ startLine)
              else []))"

definition buildWebURL_legacy ::
  "string \<Rightarrow> string \<Rightarrow> string \<Rightarrow> string \<Rightarrow> string \<Rightarrow> panic + string" where
  "buildWebURL_legacy base ref path0 lineNumber commitHash =
     (let path = (if path0 = ''.'' \<or> path0 = [] then [] else path0) in
      case legacyLineRange lineNumber of
        Inl e \<Rightarrow> Inl e
      | Inr (startLine, endLine) \<Rightarrow>
          Inr (legacySwitch base ref path startLine endLine commitHash))"


section \<open>Vocabulary of the statements\<close>

text \<open>A descriptor accepts a URL when it has a matcher and the matcher returns true.\<close>

definition accepts :: "provider \<Rightarrow> string \<Rightarrow> bool" where
  "accepts p u = (case match p of None \<Rightarrow> False | Some m \<Rightarrow> m u)"


section \<open>Package-level variables as program state\<close>

text \<open>
  \<^verbatim>\<open>providers\<close> and \<^verbatim>\<open>defaultProvider\<close> are declared with \<^verbatim>\<open>var\<close>: they are
  assignable package-level variables, the only state that outlives a call of
  \<^verbatim>\<open>buildWebURL\<close>. Here they are the two fields of a state record, and the
  functions that read them take the state and return it with their result, so that
  what a call leaves behind for the next call is part of what it returns. The initial
  state holds the two values of the declarations.
\<close>

record globals =
  providers_var :: "provider list"
  defaultProvider_var :: provider

definition initial_globals :: globals where
  "initial_globals = \<lparr>providers_var = providers, defaultProvider_var = defaultProvider\<rparr>"

text \<open>The loop of \<^verbatim>\<open>detectProvider\<close> over the current value of \<^verbatim>\<open>providers\<close>,
  falling back to the current value of \<^verbatim>\<open>defaultProvider\<close>. The \<^verbatim>\<open>range\<close>
  clause copies each element into \<^verbatim>\<open>p\<close>; neither variable is written.\<close>

fun detectProvider_from :: "provider list \<Rightarrow> provider \<Rightarrow> string \<Rightarrow> panic + provider" where
  "detectProvider_from [] dflt base = Inr dflt"
| "detectProvider_from (p # ps) dflt base =
     (case match p of
        None \<Rightarrow> Inl NilFuncCall
      | Some m \<Rightarrow> if m base then Inr p else detectProvider_from ps dflt base)"

definition detectProvider_st :: "string \<Rightarrow> globals \<Rightarrow> (panic + provider) \<times> globals" where
  "detectProvider_st base g =
     (detectProvider_from (providers_var g) (defaultProvider_var g) base, g)"

text \<open>\<^verbatim>\<open>buildWebURL\<close> with the state threaded through its one call that reads
  it. The builders of a descriptor are closures over no variable: they call
  \<^verbatim>\<open>pathJoin\<close>, \<^verbatim>\<open>strings.Contains\<close> and the anchor functions only.\<close>

definition buildWebURL_st ::
  "repoContext \<Rightarrow> string \<Rightarrow> string \<Rightarrow> globals \<Rightarrow> (panic + string) \<times> globals" where
  "buildWebURL_st ctx lineNumber commitHash g =
     (case lineRange lineNumber of
        Inl e \<Rightarrow> (Inl e, g)
      | Inr (startLine, endLine) \<Rightarrow>
          (case detectProvider_st (baseURL ctx) g of
             (Inl e, g1) \<Rightarrow> (Inl e, g1)
           | (Inr p, g1) \<Rightarrow>
               (let url = (if commitHash \<noteq> []
                           then commitURL p (baseURL ctx) commitHash (relPath ctx)
                           else treeURL p (baseURL ctx) (branch ctx) (relPath ctx))
                in (Inr (url @ lineAnchor p startLine endLine), g1))))"


section \<open>Facts about the string functions\<close>

lemma hasPrefix_iff: "hasPrefix s pre \<longleftrightarrow> (\<exists>t. s = pre @ t)"
proof
  assume "hasPrefix s pre"
  then have "take (length pre) s = pre" by (simp add: hasPrefix_def)
  then have "s = pre @ drop (length pre) s" by (metis append_take_drop_id)
  then show "\<exists>t. s = pre @ t" ..
next
  assume "\<exists>t. s = pre @ t"
  then show "hasPrefix s pre" by (auto simp: hasPrefix_def)
qed

lemma hasSuffix_iff: "hasSuffix s suf \<longleftrightarrow> (\<exists>t. s = t @ suf)"
proof
  assume "hasSuffix s suf"
  then have "drop (length s - length suf) s = suf" by (simp add: hasSuffix_def)
  then have "s = take (length s - length suf) s @ suf" by (metis append_take_drop_id)
  then show "\<exists>t. s = t @ suf" ..
next
  assume "\<exists>t. s = t @ suf"
  then show "hasSuffix s suf" by (auto simp: hasSuffix_def)
qed

lemma contains_iff: "contains s sub \<longleftrightarrow> (\<exists>a b. s = a @ sub @ b)"
proof (induction s)
  case Nil
  show ?case by auto
next
  case (Cons c s)
  show ?case
  proof
    assume "contains (c # s) sub"
    then consider "hasPrefix (c # s) sub" | "contains s sub" by auto
    then show "\<exists>a b. c # s = a @ sub @ b"
    proof cases
      case 1
      then obtain t where "c # s = sub @ t" by (auto simp: hasPrefix_iff)
      then have "c # s = [] @ sub @ t" by simp
      then show ?thesis by blast
    next
      case 2
      then obtain a b where "s = a @ sub @ b" using Cons.IH by auto
      then have "c # s = (c # a) @ sub @ b" by simp
      then show ?thesis by blast
    qed
  next
    assume "\<exists>a b. c # s = a @ sub @ b"
    then obtain a b where ab: "c # s = a @ sub @ b" by auto
    show "contains (c # s) sub"
    proof (cases a)
      case Nil
      with ab have "hasPrefix (c # s) sub" by (auto simp: hasPrefix_iff)
      then show ?thesis by simp
    next
      case (Cons a0 a')
      with ab have "s = a' @ sub @ b" by simp
      then have "contains s sub" using Cons.IH by blast
      then show ?thesis by simp
    qed
  qed
qed

lemma contains_append_left: "contains s (x @ y) \<Longrightarrow> contains s x"
proof -
  assume "contains s (x @ y)"
  then obtain a b where "s = a @ (x @ y) @ b" by (auto simp: contains_iff)
  then have "s = a @ x @ (y @ b)" by simp
  then show ?thesis unfolding contains_iff by blast
qed

lemma contains_nonempty: "contains s sub \<Longrightarrow> sub \<noteq> [] \<Longrightarrow> s \<noteq> []"
  by (cases s) auto


section \<open>Facts about the provider table\<close>

lemmas provider_defs =
  githubProvider_def gitlabProvider_def bitbucketProvider_def azureProvider_def
  giteaProvider_def gogsProvider_def codecommitProvider_def

lemmas anchor_defs = anchorLN_def anchorGL_def anchorBB_def anchorADO_def

lemmas table_defs = detectProvider_def providers_def provider_defs defaultProvider_def

lemmas build_defs = buildWebURL_def lineRange_def splitN2_def table_defs
  hasPrefix_def pathJoin_def anchor_defs

lemma detectProvider_loop_first:
  assumes "\<forall>q \<in> set ps. match q \<noteq> None"
  shows "\<exists>p. detectProvider_loop ps u = Inr p \<and>
           ((\<exists>i < length ps. p = ps ! i \<and> accepts p u \<and> (\<forall>j < i. \<not> accepts (ps ! j) u))
            \<or> (p = defaultProvider \<and> (\<forall>q \<in> set ps. \<not> accepts q u)))"
  using assms
proof (induction ps)
  case Nil
  show ?case by simp
next
  case (Cons p0 ps)
  from Cons.prems obtain m where m: "match p0 = Some m" by auto
  show ?case
  proof (cases "m u")
    case True
    then have "detectProvider_loop (p0 # ps) u = Inr p0" and "accepts p0 u"
      using m by (simp_all add: accepts_def)
    then show ?thesis by fastforce
  next
    case False
    then have loop: "detectProvider_loop (p0 # ps) u = detectProvider_loop ps u"
      and no: "\<not> accepts p0 u"
      using m by (simp_all add: accepts_def)
    from Cons obtain p where p: "detectProvider_loop ps u = Inr p"
      and alt: "(\<exists>i < length ps. p = ps ! i \<and> accepts p u \<and> (\<forall>j < i. \<not> accepts (ps ! j) u))
            \<or> (p = defaultProvider \<and> (\<forall>q \<in> set ps. \<not> accepts q u))"
      by auto
    from alt show ?thesis
    proof
      assume "\<exists>i < length ps. p = ps ! i \<and> accepts p u \<and> (\<forall>j < i. \<not> accepts (ps ! j) u)"
      then obtain i where i: "i < length ps" "p = ps ! i" "accepts p u"
        "\<forall>j < i. \<not> accepts (ps ! j) u" by auto
      have before: "\<forall>j < Suc i. \<not> accepts ((p0 # ps) ! j) u"
      proof (intro allI impI)
        fix j assume "j < Suc i"
        then show "\<not> accepts ((p0 # ps) ! j) u"
          using no i(4) by (cases j) auto
      qed
      have "Suc i < length (p0 # ps) \<and> p = (p0 # ps) ! Suc i \<and> accepts p u
              \<and> (\<forall>j < Suc i. \<not> accepts ((p0 # ps) ! j) u)"
        using i before by simp
      then have "\<exists>k < length (p0 # ps). p = (p0 # ps) ! k \<and> accepts p u
              \<and> (\<forall>j < k. \<not> accepts ((p0 # ps) ! j) u)"
        by (intro exI [of _ "Suc i"]) auto
      moreover have "detectProvider_loop (p0 # ps) u = Inr p"
        using loop p by simp
      ultimately show ?thesis by (intro exI [of _ p]) simp
    next
      assume "p = defaultProvider \<and> (\<forall>q \<in> set ps. \<not> accepts q u)"
      then show ?thesis using loop p no by auto
    qed
  qed
qed

lemma providers_match: "\<forall>q \<in> set providers. match q \<noteq> None"
  by (simp add: providers_def provider_defs)

lemma detect_github: "contains u ''github.com'' \<Longrightarrow> detectProvider u = Inr githubProvider"
  by (simp add: detectProvider_def providers_def githubProvider_def)

lemma detect_gitlab:
  "\<not> contains u ''github.com'' \<Longrightarrow> contains u ''gitlab'' \<Longrightarrow> detectProvider u = Inr gitlabProvider"
  by (simp add: detectProvider_def providers_def githubProvider_def gitlabProvider_def)

lemma match_default: "match defaultProvider = None"
  by (simp add: defaultProvider_def)

lemma listed_not_default: "p \<in> set providers \<Longrightarrow> p \<noteq> defaultProvider"
proof
  assume "p \<in> set providers" and "p = defaultProvider"
  then have "match p \<noteq> None" and "match p = None"
    using providers_match match_default by auto
  then show False by simp
qed

lemma splitN2_first:
  "sep \<notin> set s \<Longrightarrow> splitN2 (s @ sep # e) sep = [s, e]"
proof -
  assume "sep \<notin> set s"
  then have ne: "\<And>x. x \<in> set s \<Longrightarrow> x \<noteq> sep" by auto
  have "dropWhile (\<lambda>c. c \<noteq> sep) (s @ sep # e) = sep # e"
    using ne by (simp add: dropWhile_append2)
  moreover have "takeWhile (\<lambda>c. c \<noteq> sep) (s @ sep # e) = s"
    using ne by (simp add: takeWhile_append2)
  ultimately show ?thesis by (simp add: splitN2_def)
qed

lemma lineRange_first_dash:
  "CHR ''-'' \<notin> set s \<Longrightarrow> lineRange (s @ ''-'' @ e) = Inr (s, e)"
  by (simp add: lineRange_def splitN2_first)


section \<open>Facts about path joining and descriptors\<close>

lemma hasSuffix_char: "hasSuffix s [c] \<longleftrightarrow> s \<noteq> [] \<and> last s = c"
proof (cases s rule: rev_cases)
  case Nil
  then show ?thesis by (simp add: hasSuffix_def)
next
  case (snoc t x)
  then show ?thesis by (auto simp: hasSuffix_iff)
qed

lemma pathJoin_root_suffix:
  assumes "seg \<noteq> []" and "last seg \<noteq> CHR ''/''"
  shows "hasSuffix (pathJoin [base, seg, ref, []]) ''/'' \<longleftrightarrow> hasSuffix ref ''/''"
  using assms
  by (cases "base = []"; cases "ref = []") (simp_all add: pathJoin_def hasSuffix_char)

lemma pathJoin_path_segment:
  assumes "seg \<noteq> []" and "path \<noteq> []"
  shows "pathJoin [base, seg, ref, path] = pathJoin [base, seg, ref, []] @ ''/'' @ path"
  using assms
  by (cases "base = []"; cases "ref = []") (simp_all add: pathJoin_def)

lemma gitlab_not_codecommit: "gitlabProvider \<noteq> codecommitProvider"
proof
  assume "gitlabProvider = codecommitProvider"
  then have "lineAnchor gitlabProvider ''1'' [] = lineAnchor codecommitProvider ''1'' []"
    by simp
  then show False by (simp add: provider_defs anchorGL_def)
qed

lemma gitlab_not_azure: "gitlabProvider \<noteq> azureProvider"
proof
  assume "gitlabProvider = azureProvider"
  then have "lineAnchor gitlabProvider ''1'' [] = lineAnchor azureProvider ''1'' []"
    by simp
  then show False by (simp add: provider_defs anchor_defs)
qed


section \<open>Facts about buildWebURL\<close>

lemma detectProvider_Inr: "\<exists>p. detectProvider u = Inr p"
  using detectProvider_loop_first [OF providers_match, of u]
  unfolding detectProvider_def by blast

lemma splitN2_no_sep: "sep \<notin> set s \<Longrightarrow> splitN2 s sep = [s]"
proof -
  assume "sep \<notin> set s"
  then have "dropWhile (\<lambda>c. c \<noteq> sep) s = []" by auto
  then show ?thesis by (simp only: splitN2_def list.case)
qed

lemma buildWebURL_eq:
  assumes "lineRange l = Inr (s, e)" and "detectProvider (baseURL ctx) = Inr p"
  shows "buildWebURL ctx l h =
           Inr ((if h \<noteq> [] then commitURL p (baseURL ctx) h (relPath ctx)
                 else treeURL p (baseURL ctx) (branch ctx) (relPath ctx))
                @ lineAnchor p s e)"
  using assms by (simp add: buildWebURL_def)

lemma lineRange_Inr: "\<exists>s e. lineRange l = Inr (s, e)"
proof (cases "CHR ''-'' \<in> set l")
  case True
  then obtain a b where "l = a @ CHR ''-'' # b" and "CHR ''-'' \<notin> set a"
    by (auto dest: split_list_first)
  then show ?thesis by (simp add: lineRange_def splitN2_first)
next
  case False
  then show ?thesis by (simp add: lineRange_def splitN2_no_sep)
qed

lemma lineRange_single: "CHR ''-'' \<notin> set n \<Longrightarrow> lineRange n = Inr (n, [])"
  by (simp add: lineRange_def splitN2_no_sep)

lemma detect_azure:
  assumes "contains u ''dev.azure.com'' \<or> contains u ''visualstudio.com''"
    and "\<not> contains u ''github.com''" and "\<not> contains u ''gitlab''"
    and "\<not> contains u ''bitbucket.org''"
  shows "detectProvider u = Inr azureProvider"
proof -
  have "contains u (''gitlab'' @ ''.com'') \<Longrightarrow> contains u ''gitlab''"
    by (rule contains_append_left)
  then have "\<not> contains u ''gitlab.com''" using assms(3) by auto
  then show ?thesis using assms
    by (simp add: detectProvider_def providers_def githubProvider_def gitlabProvider_def
        bitbucketProvider_def azureProvider_def)
qed


section \<open>Facts relating the two versions of buildWebURL\<close>

lemma split_no_sep: "sep \<notin> set s \<Longrightarrow> split s sep = [s]"
  by (induction s) auto

lemma split_first: "sep \<notin> set a \<Longrightarrow> split (a @ sep # b) sep = a # split b sep"
  by (induction a) auto

lemma legacyLineRange_eq:
  assumes "length (filter (\<lambda>c. c = CHR ''-'') l) \<le> 1"
  shows "legacyLineRange l = lineRange l"
proof (cases "CHR ''-'' \<in> set l")
  case False
  then show ?thesis
    by (simp add: legacyLineRange_def lineRange_def split_no_sep splitN2_no_sep)
next
  case True
  then obtain a b where l: "l = a @ CHR ''-'' # b" and a: "CHR ''-'' \<notin> set a"
    by (auto dest: split_list_first)
  from assms l have "filter (\<lambda>c. c = CHR ''-'') b = []" by simp
  then have b: "CHR ''-'' \<notin> set b" by (auto simp: filter_empty_conv)
  show ?thesis
    using a b l by (simp add: legacyLineRange_def lineRange_def split_first split_no_sep splitN2_first)
qed

lemma legacySwitch_eq:
  assumes "base \<noteq> []" and "ref \<noteq> [] \<or> h \<noteq> []"
  shows "(case detectProvider base of
            Inl x \<Rightarrow> Inl x
          | Inr p \<Rightarrow> Inr ((if h \<noteq> [] then commitURL p base h path else treeURL p base ref path)
                          @ lineAnchor p s e))
         = Inr (legacySwitch base ref path s e h)"
proof -
  consider
      (gh) "contains base ''github.com''"
    | (gl) "\<not> (contains base ''github.com'')" "contains base ''gitlab.com'' \<or> contains base ''gitlab''"
    | (bb) "\<not> (contains base ''github.com'')" "\<not> (contains base ''gitlab.com'' \<or> contains base ''gitlab'')" "contains base ''bitbucket.org''"
    | (az) "\<not> (contains base ''github.com'')" "\<not> (contains base ''gitlab.com'' \<or> contains base ''gitlab'')" "\<not> (contains base ''bitbucket.org'')" "contains base ''dev.azure.com'' \<or> contains base ''visualstudio.com''"
    | (gt) "\<not> (contains base ''github.com'')" "\<not> (contains base ''gitlab.com'' \<or> contains base ''gitlab'')" "\<not> (contains base ''bitbucket.org'')" "\<not> (contains base ''dev.azure.com'' \<or> contains base ''visualstudio.com'')" "contains base ''gitea''"
    | (gg) "\<not> (contains base ''github.com'')" "\<not> (contains base ''gitlab.com'' \<or> contains base ''gitlab'')" "\<not> (contains base ''bitbucket.org'')" "\<not> (contains base ''dev.azure.com'' \<or> contains base ''visualstudio.com'')" "\<not> (contains base ''gitea'')" "contains base ''gogs''"
    | (cc) "\<not> (contains base ''github.com'')" "\<not> (contains base ''gitlab.com'' \<or> contains base ''gitlab'')" "\<not> (contains base ''bitbucket.org'')" "\<not> (contains base ''dev.azure.com'' \<or> contains base ''visualstudio.com'')" "\<not> (contains base ''gitea'')" "\<not> (contains base ''gogs'')" "contains base ''console.aws.amazon.com'' \<or> contains base ''codecommit''"
    | (df) "\<not> (contains base ''github.com'')" "\<not> (contains base ''gitlab.com'' \<or> contains base ''gitlab'')" "\<not> (contains base ''bitbucket.org'')" "\<not> (contains base ''dev.azure.com'' \<or> contains base ''visualstudio.com'')" "\<not> (contains base ''gitea'')" "\<not> (contains base ''gogs'')" "\<not> (contains base ''console.aws.amazon.com'' \<or> contains base ''codecommit'')"
    by blast
  then show ?thesis
  proof cases
    case gh
    with assms show ?thesis
      by (simp add: table_defs legacySwitch_def pathJoin_def anchor_defs)
  next
    case gl
    with assms show ?thesis
      by (simp add: table_defs legacySwitch_def pathJoin_def anchor_defs)
  next
    case bb
    with assms show ?thesis
      by (simp add: table_defs legacySwitch_def pathJoin_def anchor_defs)
  next
    case az
    with assms show ?thesis
      by (simp add: table_defs legacySwitch_def pathJoin_def anchor_defs)
  next
    case gt
    with assms show ?thesis
      by (simp add: table_defs legacySwitch_def pathJoin_def anchor_defs)
  next
    case gg
    with assms show ?thesis
      by (simp add: table_defs legacySwitch_def pathJoin_def anchor_defs)
  next
    case cc
    with assms show ?thesis
      by (simp add: table_defs legacySwitch_def pathJoin_def anchor_defs)
  next
    case df
    with assms show ?thesis
      by (simp add: table_defs legacySwitch_def pathJoin_def anchor_defs)
  qed
qed


lemmas legacy_defs = buildWebURL_legacy_def legacyLineRange_def legacySwitch_def hasPrefix_def


section \<open>Facts about convertToHTTPS\<close>




























section \<open>Facts about the state-passing functions\<close>

lemma detectProvider_from_default:
  "detectProvider_from ps defaultProvider u = detectProvider_loop ps u"
  by (induction ps) (simp_all split: option.splits)

lemma detectProvider_st_initial:
  "detectProvider_st u initial_globals = (detectProvider u, initial_globals)"
  by (simp add: detectProvider_st_def initial_globals_def detectProvider_def
      detectProvider_from_default)

lemma buildWebURL_st_state: "snd (buildWebURL_st ctx l h g) = g"
  by (simp add: buildWebURL_st_def detectProvider_st_def split: sum.splits prod.splits)

lemma buildWebURL_st_initial:
  "buildWebURL_st ctx l h initial_globals = (buildWebURL ctx l h, initial_globals)"
  by (simp add: buildWebURL_st_def buildWebURL_def detectProvider_st_initial
      split: sum.splits prod.splits)

lemma buildWebURL_Inr: "\<exists>url. buildWebURL ctx l h = Inr url"
proof -
  obtain p where p: "detectProvider (baseURL ctx) = Inr p"
    using detectProvider_Inr by blast
  obtain s e where se: "lineRange l = Inr (s, e)"
    using lineRange_Inr by blast
  show ?thesis by (simp add: buildWebURL_eq [OF se p])
qed

lemma split_takeWhile: "\<exists>rest. split e sep = takeWhile (\<lambda>c. c \<noteq> sep) e # rest"
  by (induction e) (auto split: list.splits)

lemma legacyLineRange_first_dash:
  assumes "CHR ''-'' \<notin> set s"
  shows "legacyLineRange (s @ ''-'' @ e) = Inr (s, takeWhile (\<lambda>c. c \<noteq> CHR ''-'') e)"
proof -
  obtain rest where "split e CHR ''-'' = takeWhile (\<lambda>c. c \<noteq> CHR ''-'') e # rest"
    using split_takeWhile by blast
  then have "split (s @ CHR ''-'' # e) CHR ''-'' = s # takeWhile (\<lambda>c. c \<noteq> CHR ''-'') e # rest"
    using assms by (simp add: split_first)
  then show ?thesis by (simp add: legacyLineRange_def)
qed


section \<open>C1: tree URLs of the repository root\<close>

text \<open>
  Claim C1 says that for every descriptor the tree URL of the repository root (empty
  \<^verbatim>\<open>relPath\<close>) has no dangling slash. The CodeCommit descriptor, the seventh of
  \<^verbatim>\<open>providers\<close>, appends \<^verbatim>\<open>/\<close> to its root URL itself.
\<close>

theorem treeURL_root_counterexample:
  "providers ! 6 = codecommitProvider
   \<and> treeURL codecommitProvider ''https://console.aws.amazon.com/r'' ''main'' []
       = ''https://console.aws.amazon.com/r/browse/refs/heads/main/--/''
   \<and> hasSuffix (treeURL codecommitProvider ''https://console.aws.amazon.com/r'' ''main'' []) ''/''
   \<and> buildWebURL \<lparr>baseURL = ''https://console.aws.amazon.com/r'', branch = ''main'',
         relPath = []\<rparr> [] []
       = Inr ''https://console.aws.amazon.com/r/browse/refs/heads/main/--/''"
  by (simp add: build_defs hasSuffix_def)

text \<open>
  Claim C1, amended. For every descriptor of \<^verbatim>\<open>providers\<close> other than CodeCommit's,
  and for \<^verbatim>\<open>defaultProvider\<close>, the tree URL for an empty path ends in a slash only
  when the ref itself does, and the tree URL for a non-empty path is that root URL
  followed by the path segment: \<^verbatim>\<open>/\<close> and the path, or for Azure DevOps
  \<^verbatim>\<open>&path=/\<close> and the path. The CodeCommit root URL is the join of base,
  \<^verbatim>\<open>browse/refs/heads\<close>, ref and \<^verbatim>\<open>--\<close>, followed by a slash.
\<close>

theorem treeURL_root_shape:
  assumes "p \<in> set providers \<union> {defaultProvider}"
  shows "(p \<noteq> codecommitProvider \<longrightarrow>
            (hasSuffix (treeURL p base ref []) ''/'' \<longleftrightarrow> hasSuffix ref ''/''))
       \<and> (p \<noteq> codecommitProvider \<and> p \<noteq> azureProvider \<and> path \<noteq> [] \<longrightarrow>
            treeURL p base ref path = treeURL p base ref [] @ ''/'' @ path)
       \<and> (path \<noteq> [] \<longrightarrow>
            treeURL azureProvider base ref path
              = treeURL azureProvider base ref [] @ ''&path=/'' @ path)
       \<and> treeURL codecommitProvider base ref []
            = pathJoin [base, ''browse/refs/heads'', ref, ''--''] @ ''/''"
proof -
  from assms consider "p = githubProvider" | "p = gitlabProvider" | "p = bitbucketProvider"
    | "p = azureProvider" | "p = giteaProvider" | "p = gogsProvider"
    | "p = codecommitProvider" | "p = defaultProvider"
    by (auto simp: providers_def)
  then have "(p \<noteq> codecommitProvider \<longrightarrow>
            (hasSuffix (treeURL p base ref []) ''/'' \<longleftrightarrow> hasSuffix ref ''/''))
       \<and> (p \<noteq> codecommitProvider \<and> p \<noteq> azureProvider \<and> path \<noteq> [] \<longrightarrow>
            treeURL p base ref path = treeURL p base ref [] @ ''/'' @ path)"
  proof cases
    case 4
    have "hasSuffix (base @ ''?version=GB'' @ ref) ''/'' \<longleftrightarrow> hasSuffix ref ''/''"
      by (cases "ref = []") (simp_all add: hasSuffix_char)
    then show ?thesis using 4 by (simp add: azureProvider_def)
  next
    case 7
    then show ?thesis by simp
  qed (simp_all add: provider_defs defaultProvider_def pathJoin_root_suffix pathJoin_path_segment)
  moreover have "path \<noteq> [] \<longrightarrow>
            treeURL azureProvider base ref path
              = treeURL azureProvider base ref [] @ ''&path=/'' @ path"
    by (simp add: azureProvider_def)
  moreover have "treeURL codecommitProvider base ref []
            = pathJoin [base, ''browse/refs/heads'', ref, ''--''] @ ''/''"
    by (simp add: codecommitProvider_def)
  ultimately show ?thesis by blast
qed

text \<open>The amended claim at the GitLab descriptor, and its Azure DevOps part.\<close>

theorem treeURL_root_shape_witness:
  "gitlabProvider \<in> set providers \<union> {defaultProvider}
   \<and> gitlabProvider \<noteq> codecommitProvider \<and> gitlabProvider \<noteq> azureProvider
   \<and> \<not> hasSuffix (treeURL gitlabProvider ''https://gitlab.com/u/r'' ''main'' []) ''/''
   \<and> treeURL gitlabProvider ''https://gitlab.com/u/r'' ''main'' ''a.go''
       = treeURL gitlabProvider ''https://gitlab.com/u/r'' ''main'' [] @ ''/a.go''
   \<and> treeURL azureProvider ''https://dev.azure.com/o/p/_git/r'' ''main'' ''a.go''
       = treeURL azureProvider ''https://dev.azure.com/o/p/_git/r'' ''main'' [] @ ''&path=/a.go''"
proof -
  have m: "gitlabProvider \<in> set providers \<union> {defaultProvider}"
    by (simp add: providers_def)
  note t = treeURL_root_shape [OF m, where base = "''https://gitlab.com/u/r''"
      and ref = "''main''" and path = "''a.go''"]
    treeURL_root_shape [OF m, where base = "''https://dev.azure.com/o/p/_git/r''"
      and ref = "''main''" and path = "''a.go''"]
  have s: "\<not> hasSuffix ''main'' ''/''" by (simp add: hasSuffix_def)
  from t(1) s have "\<not> hasSuffix (treeURL gitlabProvider ''https://gitlab.com/u/r'' ''main'' []) ''/''"
    using gitlab_not_codecommit by blast
  moreover from t(1) have "treeURL gitlabProvider ''https://gitlab.com/u/r'' ''main'' ''a.go''
       = treeURL gitlabProvider ''https://gitlab.com/u/r'' ''main'' [] @ ''/a.go''"
    using gitlab_not_codecommit gitlab_not_azure by simp
  moreover from t(2) have "treeURL azureProvider ''https://dev.azure.com/o/p/_git/r'' ''main'' ''a.go''
       = treeURL azureProvider ''https://dev.azure.com/o/p/_git/r'' ''main'' [] @ ''&path=/a.go''"
    by simp
  ultimately show ?thesis using m gitlab_not_codecommit gitlab_not_azure by blast
qed


section \<open>C2: URLs for a commit\<close>





section \<open>C3: base URLs containing gitlab.com\<close>

text \<open>
  Claim C3 says that every base URL containing \<^verbatim>\<open>gitlab.com\<close> is routed to the
  GitLab descriptor. The GitHub descriptor stands before it in \<^verbatim>\<open>providers\<close>, and
  the first match wins: a URL that also contains \<^verbatim>\<open>github.com\<close> gets the GitHub
  descriptor, whose URLs have \<^verbatim>\<open>tree/\<close> and the \<^verbatim>\<open>#Ln-Lm\<close> anchor.
\<close>

theorem gitlab_com_counterexample:
  "contains ''https://github.com/gitlab.com'' ''gitlab.com''
   \<and> detectProvider ''https://github.com/gitlab.com'' = Inr githubProvider
   \<and> githubProvider \<noteq> gitlabProvider
   \<and> buildWebURL \<lparr>baseURL = ''https://github.com/gitlab.com'', branch = ''main'',
         relPath = ''a.go''\<rparr> ''4-9'' []
       = Inr ''https://github.com/gitlab.com/tree/main/a.go#L4-L9''"
proof -
  have "lineAnchor githubProvider ''4'' ''9'' \<noteq> lineAnchor gitlabProvider ''4'' ''9''"
    by (simp add: provider_defs anchor_defs)
  then have "githubProvider \<noteq> gitlabProvider" by auto
  then show ?thesis by (simp add: build_defs)
qed

text \<open>
  Claim C3, amended. A base URL containing \<^verbatim>\<open>gitlab.com\<close> is routed to the GitLab
  descriptor when it does not contain \<^verbatim>\<open>github.com\<close>, and to the GitHub descriptor
  when it does; in neither case to the default descriptor. The GitLab descriptor is the
  one building \<^verbatim>\<open>-/tree\<close>, \<^verbatim>\<open>-/commit\<close> and \<^verbatim>\<open>-/blob\<close> URLs with the
  anchors of \<^verbatim>\<open>anchorGL\<close>.
\<close>

theorem gitlab_com_routing:
  assumes "contains u ''gitlab.com''"
  shows "(\<not> contains u ''github.com'' \<longrightarrow> detectProvider u = Inr gitlabProvider)
       \<and> (contains u ''github.com'' \<longrightarrow> detectProvider u = Inr githubProvider)
       \<and> detectProvider u \<noteq> Inr defaultProvider
       \<and> treeURL gitlabProvider b r f = pathJoin [b, ''-/tree'', r, f]
       \<and> commitURL gitlabProvider b h f
           = (if f = [] then pathJoin [b, ''-/commit'', h] else pathJoin [b, ''-/blob'', h, f])
       \<and> lineAnchor gitlabProvider = anchorGL"
proof -
  have "contains u (''gitlab'' @ ''.com'')" using assms by simp
  then have gl: "contains u ''gitlab''" by (rule contains_append_left)
  have a: "\<not> contains u ''github.com'' \<longrightarrow> detectProvider u = Inr gitlabProvider"
    using gl by (simp add: detect_gitlab)
  have b: "contains u ''github.com'' \<longrightarrow> detectProvider u = Inr githubProvider"
    by (simp add: detect_github)
  have "githubProvider \<noteq> defaultProvider" "gitlabProvider \<noteq> defaultProvider"
    by (rule listed_not_default, simp add: providers_def)+
  then have c: "detectProvider u \<noteq> Inr defaultProvider"
    using a b by (cases "contains u ''github.com''") auto
  show ?thesis using a b c by (simp add: gitlabProvider_def)
qed

text \<open>The amended claim at \<^verbatim>\<open>https://gitlab.com/u/r\<close>.\<close>

theorem gitlab_com_routing_witness:
  "contains ''https://gitlab.com/u/r'' ''gitlab.com''
   \<and> \<not> contains ''https://gitlab.com/u/r'' ''github.com''
   \<and> detectProvider ''https://gitlab.com/u/r'' = Inr gitlabProvider
   \<and> detectProvider ''https://gitlab.com/u/r'' \<noteq> Inr defaultProvider
   \<and> treeURL gitlabProvider ''https://gitlab.com/u/r'' ''main'' ''a.go''
       = ''https://gitlab.com/u/r/-/tree/main/a.go''
   \<and> commitURL gitlabProvider ''https://gitlab.com/u/r'' ''abc'' ''a.go''
       = ''https://gitlab.com/u/r/-/blob/abc/a.go''"
proof -
  have c: "contains ''https://gitlab.com/u/r'' ''gitlab.com''"
    and n: "\<not> contains ''https://gitlab.com/u/r'' ''github.com''"
    by (simp_all add: hasPrefix_def)
  note t = gitlab_com_routing [OF c, of "''https://gitlab.com/u/r''" "''main''" "''a.go''" "''abc''"]
  from t n have "detectProvider ''https://gitlab.com/u/r'' = Inr gitlabProvider"
    by blast
  moreover from t have "detectProvider ''https://gitlab.com/u/r'' \<noteq> Inr defaultProvider"
    by blast
  moreover from t have "treeURL gitlabProvider ''https://gitlab.com/u/r'' ''main'' ''a.go''
       = ''https://gitlab.com/u/r/-/tree/main/a.go''"
    by (simp add: pathJoin_def)
  moreover from t have "commitURL gitlabProvider ''https://gitlab.com/u/r'' ''abc'' ''a.go''
       = ''https://gitlab.com/u/r/-/blob/abc/a.go''"
    by (simp add: pathJoin_def)
  ultimately show ?thesis using c n by blast
qed


section \<open>C4: where the line spec is cut\<close>

text \<open>
  Claim C4 says that \<^verbatim>\<open>buildWebURL\<close> cuts the line spec at its first dash only, so
  that \<^verbatim>\<open>1-2-3\<close> has the end line \<^verbatim>\<open>2-3\<close>, and names both the function of
  \<^verbatim>\<open>url.go\<close> and the earlier one of \<^verbatim>\<open>main.go\<close>. The earlier one calls
  \<^verbatim>\<open>strings.Split\<close> and takes \<^verbatim>\<open>parts[1]\<close>: its end line for \<^verbatim>\<open>1-2-3\<close> is
  \<^verbatim>\<open>2\<close> and its GitHub anchor \<^verbatim>\<open>#L1-L2\<close>.
\<close>

theorem lineSpec_legacy_counterexample:
  "legacyLineRange ''1-2-3'' = Inr (''1'', ''2'')
   \<and> buildWebURL_legacy ''https://github.com/u/r'' ''main'' ''a.go'' ''1-2-3'' []
       = Inr ''https://github.com/u/r/tree/main/a.go#L1-L2''"
  by (simp add: legacy_defs)

text \<open>
  Claim C4, amended. \<^verbatim>\<open>buildWebURL\<close> of \<^verbatim>\<open>url.go\<close> cuts the line spec at the first
  dash only: for a spec \<open>s-e\<close> where \<open>s\<close> has no dash, the start line is \<open>s\<close> and the
  end line is all of \<open>e\<close>, further dashes included, and these two strings are what
  the selected descriptor's line-anchor builder receives. The five-argument
  \<^verbatim>\<open>buildWebURL\<close> of \<^verbatim>\<open>main.go\<close> cuts at every dash: for the same spec its start
  line is \<open>s\<close> and its end line is \<open>e\<close> up to the next dash, and these two strings are
  what its \<^verbatim>\<open>switch\<close> builds the line fragment from.
\<close>

theorem buildWebURL_first_dash:
  assumes "CHR ''-'' \<notin> set s"
  shows "lineRange (s @ ''-'' @ e) = Inr (s, e)
       \<and> buildWebURL ctx (s @ ''-'' @ e) h =
           (case detectProvider (baseURL ctx) of
              Inl x \<Rightarrow> Inl x
            | Inr p \<Rightarrow>
                Inr ((if h \<noteq> [] then commitURL p (baseURL ctx) h (relPath ctx)
                      else treeURL p (baseURL ctx) (branch ctx) (relPath ctx))
                     @ lineAnchor p s e))
       \<and> legacyLineRange (s @ ''-'' @ e) = Inr (s, takeWhile (\<lambda>c. c \<noteq> CHR ''-'') e)
       \<and> buildWebURL_legacy base ref path (s @ ''-'' @ e) h =
           Inr (legacySwitch base ref (if path = ''.'' \<or> path = [] then [] else path)
                  s (takeWhile (\<lambda>c. c \<noteq> CHR ''-'') e) h)"
proof -
  have new: "lineRange (s @ ''-'' @ e) = Inr (s, e)"
    using assms by (rule lineRange_first_dash)
  have old: "legacyLineRange (s @ ''-'' @ e) = Inr (s, takeWhile (\<lambda>c. c \<noteq> CHR ''-'') e)"
    using assms by (rule legacyLineRange_first_dash)
  have "buildWebURL ctx (s @ ''-'' @ e) h =
           (case detectProvider (baseURL ctx) of
              Inl x \<Rightarrow> Inl x
            | Inr p \<Rightarrow>
                Inr ((if h \<noteq> [] then commitURL p (baseURL ctx) h (relPath ctx)
                      else treeURL p (baseURL ctx) (branch ctx) (relPath ctx))
                     @ lineAnchor p s e))"
    using new by (simp add: buildWebURL_def split: sum.splits)
  moreover have "buildWebURL_legacy base ref path (s @ ''-'' @ e) h =
           Inr (legacySwitch base ref (if path = ''.'' \<or> path = [] then [] else path)
                  s (takeWhile (\<lambda>c. c \<noteq> CHR ''-'') e) h)"
    using old by (simp add: buildWebURL_legacy_def)
  ultimately show ?thesis using new old by blast
qed

text \<open>The spec \<^verbatim>\<open>1-2-3\<close> on a GitHub repository: \<^verbatim>\<open>url.go\<close> gives the anchor
  \<^verbatim>\<open>#L1-L2-3\<close>, \<^verbatim>\<open>main.go\<close> the end line \<^verbatim>\<open>2\<close>.\<close>

theorem buildWebURL_first_dash_witness:
  "CHR ''-'' \<notin> set ''1''
   \<and> lineRange ''1-2-3'' = Inr (''1'', ''2-3'')
   \<and> buildWebURL \<lparr>baseURL = ''https://github.com/u/r'', branch = ''main'', relPath = ''a.go''\<rparr>
        ''1-2-3'' [] = Inr ''https://github.com/u/r/tree/main/a.go#L1-L2-3''
   \<and> legacyLineRange ''1-2-3'' = Inr (''1'', ''2'')"
proof -
  have d: "CHR ''-'' \<notin> set ''1''" by simp
  have g: "detectProvider ''https://github.com/u/r'' = Inr githubProvider"
    by (simp add: table_defs hasPrefix_def)
  show ?thesis
    using d g buildWebURL_first_dash [OF d, of "''2-3''"
        "\<lparr>baseURL = ''https://github.com/u/r'', branch = ''main'', relPath = ''a.go''\<rparr>" "[]"]
    by (simp add: githubProvider_def pathJoin_def anchorLN_def)
qed


section \<open>C5: the line-anchor builders\<close>

text \<open>
  Claim C5. Each of the five line-anchor builders (\<^verbatim>\<open>anchorLN\<close>, \<^verbatim>\<open>anchorGL\<close>,
  \<^verbatim>\<open>anchorBB\<close>, \<^verbatim>\<open>anchorADO\<close> and the CodeCommit descriptor's own) returns the
  empty string for an empty start, whatever the end; for a non-empty start and an empty
  end it returns the single-line form of its platform; for both non-empty the range form.
  CodeCommit's builder returns the empty string in all three cases.
\<close>

theorem lineAnchor_contract:
  "(anchorLN [] e = [] \<and> anchorGL [] e = [] \<and> anchorBB [] e = [] \<and> anchorADO [] e = []
      \<and> lineAnchor codecommitProvider [] e = [])
   \<and> (s \<noteq> [] \<longrightarrow>
        anchorLN s [] = ''#L'' @ s \<and> anchorGL s [] = ''#L'' @ s
      \<and> anchorBB s [] = ''#lines-'' @ s
      \<and> anchorADO s [] = ''&line='' @ s @ ''&lineEnd='' @ s @ ''&lineStartColumn=1&lineEndColumn=1''
      \<and> lineAnchor codecommitProvider s [] = [])
   \<and> (s \<noteq> [] \<and> e \<noteq> [] \<longrightarrow>
        anchorLN s e = ''#L'' @ s @ ''-L'' @ e \<and> anchorGL s e = ''#L'' @ s @ ''-'' @ e
      \<and> anchorBB s e = ''#lines-'' @ s @ '':'' @ e
      \<and> anchorADO s e = ''&line='' @ s @ ''&lineEnd='' @ e @ ''&lineStartColumn=1&lineEndColumn=1''
      \<and> lineAnchor codecommitProvider s e = [])"
  by (simp add: anchorLN_def anchorGL_def anchorBB_def anchorADO_def codecommitProvider_def)

text \<open>The contract at start \<open>42\<close> and end \<open>50\<close>.\<close>

theorem lineAnchor_contract_witness:
  "anchorLN ''42'' [] = ''#L42'' \<and> anchorGL ''42'' [] = ''#L42''
   \<and> anchorBB ''42'' [] = ''#lines-42''
   \<and> anchorADO ''42'' [] = ''&line=42&lineEnd=42&lineStartColumn=1&lineEndColumn=1''
   \<and> lineAnchor codecommitProvider ''42'' [] = []
   \<and> anchorLN ''42'' ''50'' = ''#L42-L50'' \<and> anchorGL ''42'' ''50'' = ''#L42-50''
   \<and> anchorBB ''42'' ''50'' = ''#lines-42:50''
   \<and> anchorADO ''42'' ''50'' = ''&line=42&lineEnd=50&lineStartColumn=1&lineEndColumn=1''
   \<and> lineAnchor codecommitProvider ''42'' ''50'' = []
   \<and> anchorLN [] ''50'' = [] \<and> anchorADO [] ''50'' = []"
  using lineAnchor_contract [of "''50''" "''42''"] by simp


section \<open>C6: detectProvider is total and returns the first match\<close>

text \<open>
  Claim C6. \<^verbatim>\<open>detectProvider\<close> returns a descriptor for every base URL (it never
  panics): the first element of \<^verbatim>\<open>providers\<close> that accepts the URL, no earlier
  element accepting it, or \<^verbatim>\<open>defaultProvider\<close> when no element accepts it. The
  default descriptor builds GitHub-style URLs: \<^verbatim>\<open>tree/<ref>/<path>\<close> for browsing,
  \<^verbatim>\<open>commit/<hash>\<close> for a commit at the root, \<^verbatim>\<open>blob/<hash>/<path>\<close> for a
  commit with a path, and the anchors \<^verbatim>\<open>#L<n>\<close> and \<^verbatim>\<open>#L<n>-L<m>\<close>.
\<close>

theorem detectProvider_total:
  "(\<exists>p. detectProvider u = Inr p \<and>
      ((\<exists>i < length providers. p = providers ! i \<and> accepts p u
           \<and> (\<forall>j < i. \<not> accepts (providers ! j) u))
       \<or> (p = defaultProvider \<and> (\<forall>q \<in> set providers. \<not> accepts q u))))
   \<and> (b \<noteq> [] \<and> r \<noteq> [] \<and> h \<noteq> [] \<and> f \<noteq> [] \<and> n \<noteq> [] \<and> m \<noteq> [] \<longrightarrow>
        treeURL defaultProvider b r f = b @ ''/tree/'' @ r @ ''/'' @ f
      \<and> treeURL defaultProvider b r [] = b @ ''/tree/'' @ r
      \<and> commitURL defaultProvider b h [] = b @ ''/commit/'' @ h
      \<and> commitURL defaultProvider b h f = b @ ''/blob/'' @ h @ ''/'' @ f
      \<and> lineAnchor defaultProvider n [] = ''#L'' @ n
      \<and> lineAnchor defaultProvider n m = ''#L'' @ n @ ''-L'' @ m)"
proof -
  have "\<exists>p. detectProvider u = Inr p \<and>
      ((\<exists>i < length providers. p = providers ! i \<and> accepts p u
           \<and> (\<forall>j < i. \<not> accepts (providers ! j) u))
       \<or> (p = defaultProvider \<and> (\<forall>q \<in> set providers. \<not> accepts q u)))"
    unfolding detectProvider_def
    by (rule detectProvider_loop_first [OF providers_match])
  moreover have "b \<noteq> [] \<and> r \<noteq> [] \<and> h \<noteq> [] \<and> f \<noteq> [] \<and> n \<noteq> [] \<and> m \<noteq> [] \<longrightarrow>
        treeURL defaultProvider b r f = b @ ''/tree/'' @ r @ ''/'' @ f
      \<and> treeURL defaultProvider b r [] = b @ ''/tree/'' @ r
      \<and> commitURL defaultProvider b h [] = b @ ''/commit/'' @ h
      \<and> commitURL defaultProvider b h f = b @ ''/blob/'' @ h @ ''/'' @ f
      \<and> lineAnchor defaultProvider n [] = ''#L'' @ n
      \<and> lineAnchor defaultProvider n m = ''#L'' @ n @ ''-L'' @ m"
    by (simp add: defaultProvider_def pathJoin_def anchorLN_def)
  ultimately show ?thesis by blast
qed

text \<open>A host that no matcher accepts, and the default descriptor's URLs for it.\<close>

theorem detectProvider_total_witness:
  "(\<exists>p. detectProvider ''https://example.org/u/r'' = Inr p)
   \<and> treeURL defaultProvider ''https://example.org/u/r'' ''main'' ''a.go''
       = ''https://example.org/u/r/tree/main/a.go''
   \<and> treeURL defaultProvider ''https://example.org/u/r'' ''main'' []
       = ''https://example.org/u/r/tree/main''
   \<and> commitURL defaultProvider ''https://example.org/u/r'' ''abc'' []
       = ''https://example.org/u/r/commit/abc''
   \<and> commitURL defaultProvider ''https://example.org/u/r'' ''abc'' ''a.go''
       = ''https://example.org/u/r/blob/abc/a.go''
   \<and> lineAnchor defaultProvider ''4'' [] = ''#L4''
   \<and> lineAnchor defaultProvider ''4'' ''9'' = ''#L4-L9''"
proof -
  note t = detectProvider_total [of "''https://example.org/u/r''" "''https://example.org/u/r''"
      "''main''" "''abc''" "''a.go''" "''4''" "''9''"]
  from t have "\<exists>p. detectProvider ''https://example.org/u/r'' = Inr p"
    by blast
  moreover from t have "treeURL defaultProvider ''https://example.org/u/r'' ''main'' ''a.go''
       = ''https://example.org/u/r/tree/main/a.go''
   \<and> treeURL defaultProvider ''https://example.org/u/r'' ''main'' []
       = ''https://example.org/u/r/tree/main''
   \<and> commitURL defaultProvider ''https://example.org/u/r'' ''abc'' []
       = ''https://example.org/u/r/commit/abc''
   \<and> commitURL defaultProvider ''https://example.org/u/r'' ''abc'' ''a.go''
       = ''https://example.org/u/r/blob/abc/a.go''
   \<and> lineAnchor defaultProvider ''4'' [] = ''#L4''
   \<and> lineAnchor defaultProvider ''4'' ''9'' = ''#L4-L9''"
    by simp
  ultimately show ?thesis by blast
qed


section \<open>C7: convertToHTTPS\<close>





section \<open>C8: the two versions of buildWebURL\<close>

text \<open>
  Claim C8 says that the five-argument \<^verbatim>\<open>buildWebURL\<close> of \<^verbatim>\<open>main.go\<close> and the
  table-driven one of \<^verbatim>\<open>url.go\<close> agree on all inputs. They differ on a line spec
  with two dashes (\<^verbatim>\<open>strings.Split\<close> against \<^verbatim>\<open>strings.SplitN\<close>), and on an empty
  branch or base URL, where \<^verbatim>\<open>pathJoin\<close> drops the empty segment and
  \<^verbatim>\<open>Sprintf\<close> keeps its slash.
\<close>

theorem buildWebURL_legacy_counterexample:
  "buildWebURL \<lparr>baseURL = ''https://github.com/u/r'', branch = ''main'', relPath = []\<rparr>
       ''1-2-3'' [] = Inr ''https://github.com/u/r/tree/main#L1-L2-3''
   \<and> buildWebURL_legacy ''https://github.com/u/r'' ''main'' ''.'' ''1-2-3'' []
       = Inr ''https://github.com/u/r/tree/main#L1-L2''
   \<and> buildWebURL \<lparr>baseURL = ''https://github.com/u/r'', branch = [], relPath = []\<rparr> [] []
       = Inr ''https://github.com/u/r/tree''
   \<and> buildWebURL_legacy ''https://github.com/u/r'' [] [] [] []
       = Inr ''https://github.com/u/r/tree/''
   \<and> buildWebURL \<lparr>baseURL = [], branch = ''main'', relPath = []\<rparr> [] [] = Inr ''tree/main''
   \<and> buildWebURL_legacy [] ''main'' [] [] [] = Inr ''/tree/main''"
  by (simp add: build_defs legacy_defs)

text \<open>
  Claim C8, amended. For a non-empty base URL, a branch that is non-empty unless a commit
  hash is given, any path (\<^verbatim>\<open>.\<close> treated as empty), a line spec with at most one
  dash and any commit hash, the two functions return the same URL.
\<close>

theorem buildWebURL_legacy_equiv:
  assumes "base \<noteq> []" and "ref \<noteq> [] \<or> h \<noteq> []"
    and "length (filter (\<lambda>c. c = CHR ''-'') l) \<le> 1"
  shows "buildWebURL \<lparr>baseURL = base, branch = ref,
            relPath = (if path = ''.'' then [] else path)\<rparr> l h
         = buildWebURL_legacy base ref path l h"
proof -
  obtain s e where se: "lineRange l = Inr (s, e)"
    using lineRange_Inr by blast
  then have se': "legacyLineRange l = Inr (s, e)"
    using assms(3) by (simp add: legacyLineRange_eq)
  let ?path = "if path = ''.'' then [] else path"
  have "(if path = ''.'' \<or> path = [] then [] else path) = ?path" by simp
  then have "buildWebURL_legacy base ref path l h = Inr (legacySwitch base ref ?path s e h)"
    by (simp add: buildWebURL_legacy_def se')
  moreover have "buildWebURL \<lparr>baseURL = base, branch = ref, relPath = ?path\<rparr> l h
      = (case detectProvider base of
            Inl x \<Rightarrow> Inl x
          | Inr p \<Rightarrow> Inr ((if h \<noteq> [] then commitURL p base h ?path else treeURL p base ref ?path)
                          @ lineAnchor p s e))"
    by (simp add: buildWebURL_def se split: sum.splits)
  ultimately show ?thesis
    using legacySwitch_eq [OF assms(1,2), of ?path s e] by simp
qed

text \<open>Both versions on the root of a GitLab repository with a line range.\<close>

theorem buildWebURL_legacy_equiv_witness:
  "buildWebURL \<lparr>baseURL = ''https://gitlab.com/u/r'', branch = ''main'', relPath = []\<rparr>
       ''4-9'' []
     = buildWebURL_legacy ''https://gitlab.com/u/r'' ''main'' ''.'' ''4-9'' []
   \<and> buildWebURL_legacy ''https://gitlab.com/u/r'' ''main'' ''.'' ''4-9'' []
     = Inr ''https://gitlab.com/u/r/-/tree/main#L4-9''"
proof -
  have 1: "''https://gitlab.com/u/r'' \<noteq> []" and 2: "''main'' \<noteq> [] \<or> [] \<noteq> ([] :: string)"
    and 3: "length (filter (\<lambda>c. c = CHR ''-'') ''4-9'') \<le> 1"
    by simp_all
  have "buildWebURL_legacy ''https://gitlab.com/u/r'' ''main'' ''.'' ''4-9'' []
     = Inr ''https://gitlab.com/u/r/-/tree/main#L4-9''"
    by (simp add: legacy_defs)
  then show ?thesis
    using buildWebURL_legacy_equiv [OF 1 2 3, of "''.''"] by simp
qed


section \<open>C9: Azure DevOps commit page with a line\<close>

text \<open>
  Claim C9 gives the URL of an Azure DevOps commit page with a line spec of start \<open>n\<close>
  as ending in \<^verbatim>\<open>&line=n&lineEnd=n\<close> and the column parameters. For a range spec
  the \<^verbatim>\<open>lineEnd\<close> parameter is the end of the range, and a base URL that also
  matches an earlier descriptor of the table is not handled by the Azure descriptor
  at all.
\<close>

theorem azure_commit_line_counterexample:
  "contains ''https://dev.azure.com/o/p/_git/r'' ''dev.azure.com''
   \<and> buildWebURL \<lparr>baseURL = ''https://dev.azure.com/o/p/_git/r'', branch = ''main'',
         relPath = []\<rparr> ''5-7'' ''abc''
       = Inr ''https://dev.azure.com/o/p/_git/r/commit/abc&line=5&lineEnd=7&lineStartColumn=1&lineEndColumn=1''
   \<and> buildWebURL \<lparr>baseURL = ''https://dev.azure.com/o/p/_git/r'', branch = ''main'',
         relPath = []\<rparr> ''5-7'' ''abc''
       \<noteq> Inr (''https://dev.azure.com/o/p/_git/r'' @ ''/commit/'' @ ''abc'' @ ''&line='' @ ''5''
              @ ''&lineEnd='' @ ''5'' @ ''&lineStartColumn=1&lineEndColumn=1'')
   \<and> contains ''https://dev.azure.com/gitlab/_git/r'' ''dev.azure.com''
   \<and> buildWebURL \<lparr>baseURL = ''https://dev.azure.com/gitlab/_git/r'', branch = ''main'',
         relPath = []\<rparr> ''5'' ''abc''
       = Inr ''https://dev.azure.com/gitlab/_git/r/-/commit/abc#L5''"
  by (simp add: build_defs)

text \<open>
  Claim C9, amended. For a base URL containing \<^verbatim>\<open>dev.azure.com\<close> or
  \<^verbatim>\<open>visualstudio.com\<close> and none of \<^verbatim>\<open>github.com\<close>, \<^verbatim>\<open>gitlab\<close>,
  \<^verbatim>\<open>bitbucket.org\<close>, a non-empty commit hash, an empty path and a line spec that is
  a single non-empty \<open>n\<close> without dash, \<^verbatim>\<open>buildWebURL\<close> returns base, \<^verbatim>\<open>/commit/\<close>,
  the hash and \<^verbatim>\<open>&line=n&lineEnd=n&lineStartColumn=1&lineEndColumn=1\<close>: the suffix
  starts with \<^verbatim>\<open>&\<close> although the URL has no \<^verbatim>\<open>?\<close>. For the spec \<open>n-m\<close> the
  \<^verbatim>\<open>lineEnd\<close> parameter is \<open>m\<close> (and \<open>n\<close> when \<open>m\<close> is empty).
\<close>

theorem azure_commit_line:
  assumes "contains base ''dev.azure.com'' \<or> contains base ''visualstudio.com''"
    and "\<not> contains base ''github.com''" and "\<not> contains base ''gitlab''"
    and "\<not> contains base ''bitbucket.org''"
    and "h \<noteq> []" and "n \<noteq> []" and "CHR ''-'' \<notin> set n"
  shows "buildWebURL \<lparr>baseURL = base, branch = br, relPath = []\<rparr> n h
           = Inr (base @ ''/commit/'' @ h @ ''&line='' @ n @ ''&lineEnd='' @ n
                  @ ''&lineStartColumn=1&lineEndColumn=1'')
       \<and> buildWebURL \<lparr>baseURL = base, branch = br, relPath = []\<rparr> (n @ ''-'' @ m) h
           = Inr (base @ ''/commit/'' @ h @ ''&line='' @ n @ ''&lineEnd=''
                  @ (if m = [] then n else m) @ ''&lineStartColumn=1&lineEndColumn=1'')"
proof -
  have p: "detectProvider base = Inr azureProvider"
    using assms(1-4) by (rule detect_azure)
  have "base \<noteq> []" using assms(1) by (auto dest: contains_nonempty)
  then have c: "commitURL azureProvider base h [] = base @ ''/commit/'' @ h"
    using assms(5) by (simp add: azureProvider_def pathJoin_def)
  have a: "lineAnchor azureProvider = anchorADO" by (simp add: azureProvider_def)
  have r1: "lineRange n = Inr (n, [])" using assms(7) by (rule lineRange_single)
  have r2: "lineRange (n @ ''-'' @ m) = Inr (n, m)" using assms(7) by (rule lineRange_first_dash)
  let ?ctx = "\<lparr>baseURL = base, branch = br, relPath = []\<rparr>"
  have p': "detectProvider (baseURL ?ctx) = Inr azureProvider"
    using p by simp
  have "buildWebURL ?ctx n h
           = Inr (base @ ''/commit/'' @ h @ ''&line='' @ n @ ''&lineEnd='' @ n
                  @ ''&lineStartColumn=1&lineEndColumn=1'')"
    using assms(5,6) by (simp add: buildWebURL_eq [OF r1 p'] c a anchorADO_def)
  moreover have "buildWebURL ?ctx (n @ ''-'' @ m) h
           = Inr (base @ ''/commit/'' @ h @ ''&line='' @ n @ ''&lineEnd=''
                  @ (if m = [] then n else m) @ ''&lineStartColumn=1&lineEndColumn=1'')"
    using assms(5,6) by (subst buildWebURL_eq [OF r2 p']) (simp add: c a anchorADO_def)
  ultimately show ?thesis by simp
qed

text \<open>The amended claim at line \<open>5\<close> and at the range \<open>5-7\<close>.\<close>

theorem azure_commit_line_witness:
  "buildWebURL \<lparr>baseURL = ''https://dev.azure.com/o/p/_git/r'', branch = ''main'',
         relPath = []\<rparr> ''5'' ''abc''
     = Inr ''https://dev.azure.com/o/p/_git/r/commit/abc&line=5&lineEnd=5&lineStartColumn=1&lineEndColumn=1''
   \<and> buildWebURL \<lparr>baseURL = ''https://dev.azure.com/o/p/_git/r'', branch = ''main'',
         relPath = []\<rparr> ''5-7'' ''abc''
     = Inr ''https://dev.azure.com/o/p/_git/r/commit/abc&line=5&lineEnd=7&lineStartColumn=1&lineEndColumn=1''"
proof -
  let ?b = "''https://dev.azure.com/o/p/_git/r''"
  have 1: "contains ?b ''dev.azure.com'' \<or> contains ?b ''visualstudio.com''"
    and 2: "\<not> contains ?b ''github.com''" and 3: "\<not> contains ?b ''gitlab''"
    and 4: "\<not> contains ?b ''bitbucket.org''"
    by (simp_all add: hasPrefix_def)
  have 5: "''abc'' \<noteq> []" and 6: "''5'' \<noteq> []" and 7: "CHR ''-'' \<notin> set ''5''"
    by simp_all
  show ?thesis
    using azure_commit_line [OF 1 2 3 4 5 6 7, of "''main''" "''7''"] by simp
qed


section \<open>C10: determinism\<close>

text \<open>
  Claim C10. \<^verbatim>\<open>buildWebURL\<close> is deterministic: for a fixed repository context, line
  spec and commit hash, two invocations return identical results. An invocation, started
  in any state of the package-level variables \<^verbatim>\<open>providers\<close> and
  \<^verbatim>\<open>defaultProvider\<close>, leaves that state as it found it, so the invocation that
  follows it in the state it left returns the same result. Started in the state of the
  declarations, the result is that of \<^verbatim>\<open>buildWebURL\<close> over the declared table, and
  it is a URL, not a panic.
\<close>

theorem buildWebURL_deterministic:
  "snd (buildWebURL_st ctx l h g) = g
   \<and> fst (buildWebURL_st ctx l h (snd (buildWebURL_st ctx l h g)))
       = fst (buildWebURL_st ctx l h g)
   \<and> buildWebURL_st ctx l h initial_globals = (buildWebURL ctx l h, initial_globals)
   \<and> (\<exists>url. buildWebURL ctx l h = Inr url)"
  by (simp add: buildWebURL_st_state buildWebURL_st_initial buildWebURL_Inr)

text \<open>Two invocations in a row for a file on GitHub, from the initial state.\<close>

theorem buildWebURL_deterministic_witness:
  "fst (buildWebURL_st
          \<lparr>baseURL = ''https://github.com/u/r'', branch = ''main'', relPath = ''a.go''\<rparr>
          ''42'' [] initial_globals)
     = Inr ''https://github.com/u/r/tree/main/a.go#L42''
   \<and> fst (buildWebURL_st
          \<lparr>baseURL = ''https://github.com/u/r'', branch = ''main'', relPath = ''a.go''\<rparr>
          ''42'' []
          (snd (buildWebURL_st
                  \<lparr>baseURL = ''https://github.com/u/r'', branch = ''main'', relPath = ''a.go''\<rparr>
                  ''42'' [] initial_globals)))
     = Inr ''https://github.com/u/r/tree/main/a.go#L42''"
proof -
  let ?ctx = "\<lparr>baseURL = ''https://github.com/u/r'', branch = ''main'', relPath = ''a.go''\<rparr>"
  note t = buildWebURL_deterministic [of ?ctx "''42''" "[]" initial_globals]
  have v: "buildWebURL ?ctx ''42'' [] = Inr ''https://github.com/u/r/tree/main/a.go#L42''"
    by (simp add: build_defs)
  from t v have 1: "fst (buildWebURL_st ?ctx ''42'' [] initial_globals)
     = Inr ''https://github.com/u/r/tree/main/a.go#L42''"
    by simp
  from t 1 have "fst (buildWebURL_st ?ctx ''42'' []
          (snd (buildWebURL_st ?ctx ''42'' [] initial_globals)))
     = Inr ''https://github.com/u/r/tree/main/a.go#L42''"
    by metis
  with 1 show ?thesis by simp
qed

end
